theory Spec2Isabelle
  imports Complex_Main
begin

section \<open>The dynamic difficulty adjuster of \<^verbatim>\<open>src/systems/DynamicDifficulty.ts\<close>\<close>

text \<open>
  The class \<^verbatim>\<open>DynamicDifficultyAdjuster\<close> is embedded by explicit state passing: its
  private fields form one record, every method takes the record and returns the updated
  one. A JavaScript \<^verbatim>\<open>number\<close> is modelled by an ideal \<^typ>\<open>real\<close> (no rounding, no
  \<^verbatim>\<open>NaN\<close>, no infinities); the three counters, which only ever start at zero, are
  incremented or are zeroed, are natural numbers. The two readings of \<^verbatim>\<open>Date.now()\<close>
  made by one call of \<^verbatim>\<open>updateMetrics\<close> (one in \<^verbatim>\<open>updateMetrics\<close> itself, one in
  \<^verbatim>\<open>considerAdjustment\<close>) are parameters of the model, and nothing is assumed about
  them: the wall clock may stand still or step backwards.
\<close>

subsection \<open>Data model\<close>

record PlayerMetrics =
  successRate :: real
  averageAttempts :: real
  reactionTime :: real
  frustrationLevel :: real
  engagementScore :: real
  skillLevel :: real

record DifficultySettings =
  enemySpeed :: real
  enemyCount :: real
  platformSpacing :: real
  ringRequirement :: real
  gravityStrength :: real
  powerUpFrequency :: real

record DynamicDifficultyAdjuster =
  playerMetrics :: PlayerMetrics
  baseSettings :: DifficultySettings
  currentSettings :: DifficultySettings
  adjustmentHistory :: "real list"
  lastAdjustmentTime :: real
  deathCount :: nat
  levelStartTime :: real
  lastActionTime :: real
  consecutiveFailures :: nat
  consecutiveSuccesses :: nat

text \<open>The literal type \<^verbatim>\<open>'increase' | 'decrease'\<close> and the object returned by
  \<^verbatim>\<open>shouldAdjustDifficulty\<close>.\<close>

datatype direction = increase | decrease

record decision =
  adjust :: bool
  direction :: direction
  intensity :: real

text \<open>The optional argument \<^verbatim>\<open>data?: any\<close> of \<^verbatim>\<open>updateMetrics\<close>: either no object at
  all, or an object whose field \<^verbatim>\<open>expectedTime\<close> is absent or a number.\<close>

datatype payload = NoData | Data (expectedTime: "real option")

definition OPTIMAL_SUCCESS_RATE :: real where
  "OPTIMAL_SUCCESS_RATE = 0.7"

definition ADJUSTMENT_COOLDOWN :: real where
  "ADJUSTMENT_COOLDOWN = 10000"

definition MAX_ADJUSTMENT_RATE :: real where
  "MAX_ADJUSTMENT_RATE = 0.15"

subsection \<open>Construction\<close>

definition constructor :: "DifficultySettings \<Rightarrow> DynamicDifficultyAdjuster" where
  "constructor base =
     \<lparr> playerMetrics =
         \<lparr> successRate = 0.7, averageAttempts = 3, reactionTime = 300,
           frustrationLevel = 0.3, engagementScore = 0.7, skillLevel = 0.5 \<rparr>,
       baseSettings = base,
       currentSettings = base,
       adjustmentHistory = [],
       lastAdjustmentTime = 0,
       deathCount = 0,
       levelStartTime = 0,
       lastActionTime = 0,
       consecutiveFailures = 0,
       consecutiveSuccesses = 0 \<rparr>"

subsection \<open>The metrics estimator\<close>

definition lerp :: "real \<Rightarrow> real \<Rightarrow> real \<Rightarrow> real" where
  "lerp a b t = a + (b - a) * t"

definition updateSuccessRate :: "real \<Rightarrow> DynamicDifficultyAdjuster \<Rightarrow> DynamicDifficultyAdjuster" where
  "updateSuccessRate attempts s =
     (let rate = 1 / attempts;
          m = playerMetrics s
      in s\<lparr>playerMetrics := m\<lparr>successRate := lerp (successRate m) rate 0.2\<rparr>\<rparr>)"

definition updateFrustrationLevel :: "real \<Rightarrow> DynamicDifficultyAdjuster \<Rightarrow> DynamicDifficultyAdjuster" where
  "updateFrustrationLevel delta s =
     (let m = playerMetrics s
      in s\<lparr>playerMetrics := m\<lparr>frustrationLevel := max 0 (min 1 (frustrationLevel m + delta))\<rparr>\<rparr>)"

definition updateEngagementScore ::
  "real \<Rightarrow> real \<Rightarrow> real \<Rightarrow> DynamicDifficultyAdjuster \<Rightarrow> DynamicDifficultyAdjuster" where
  "updateEngagementScore levelTime attempts bonus s =
     (let timeScore = max 0 (1 - levelTime / 60000);
          attemptScore = max 0 (1 - attempts / 5);
          newEngagement = (timeScore + attemptScore) / 2 + bonus;
          m = playerMetrics s
      in s\<lparr>playerMetrics := m\<lparr>engagementScore := lerp (engagementScore m) newEngagement 0.3\<rparr>\<rparr>)"

definition updateSkillLevel :: "DynamicDifficultyAdjuster \<Rightarrow> DynamicDifficultyAdjuster" where
  "updateSkillLevel s =
     (let m = playerMetrics s;
          successComponent = successRate m;
          reactionComponent = max 0 (1 - reactionTime m / 1000);
          consistencyComponent = min (real (consecutiveSuccesses s) / 5) 1;
          newSkill = (successComponent + reactionComponent + consistencyComponent) / 3
      in s\<lparr>playerMetrics := m\<lparr>skillLevel := lerp (skillLevel m) newSkill 0.1\<rparr>\<rparr>)"

subsection \<open>Decision and application\<close>

definition shouldAdjustDifficulty :: "DynamicDifficultyAdjuster \<Rightarrow> decision" where
  "shouldAdjustDifficulty s =
     (let m = playerMetrics s in
      if frustrationLevel m > 0.7 \<or> successRate m < 0.4 \<or> consecutiveFailures s > 3
      then \<lparr> adjust = True, direction = decrease, intensity = min (frustrationLevel m) 0.2 \<rparr>
      else if engagementScore m < 0.4 \<or> successRate m > 0.9 \<or> consecutiveSuccesses s > 5
      then \<lparr> adjust = True, direction = increase,
             intensity = (if successRate m > 0.9 then 0.15 else 0.1) \<rparr>
      else
        (let skillDifference = skillLevel m - 0.5 in
         if \<bar>skillDifference\<bar> > 0.2
         then \<lparr> adjust = True,
                direction = (if skillDifference > 0 then increase else decrease),
                intensity = \<bar>skillDifference\<bar> * 0.1 \<rparr>
         else \<lparr> adjust = False, direction = increase, intensity = 0 \<rparr>))"

definition clampSettings :: "DynamicDifficultyAdjuster \<Rightarrow> DynamicDifficultyAdjuster" where
  "clampSettings s =
     (let s1 = s\<lparr>currentSettings := (currentSettings s)
                 \<lparr>enemySpeed := max 50 (min 300 (enemySpeed (currentSettings s)))\<rparr>\<rparr>;
          s2 = s1\<lparr>currentSettings := (currentSettings s1)
                 \<lparr>enemyCount := max 1 (min 10 (enemyCount (currentSettings s1)))\<rparr>\<rparr>;
          s3 = s2\<lparr>currentSettings := (currentSettings s2)
                 \<lparr>platformSpacing := max 50 (min 200 (platformSpacing (currentSettings s2)))\<rparr>\<rparr>;
          s4 = s3\<lparr>currentSettings := (currentSettings s3)
                 \<lparr>gravityStrength := max 300 (min 800 (gravityStrength (currentSettings s3)))\<rparr>\<rparr>
      in s4\<lparr>currentSettings := (currentSettings s4)
                 \<lparr>powerUpFrequency := max 0.1 (min 1 (powerUpFrequency (currentSettings s4)))\<rparr>\<rparr>)"

text \<open>\<^verbatim>\<open>Math.ceil\<close> and \<^verbatim>\<open>Math.floor\<close> return numbers again; \<^verbatim>\<open>push\<close> appends and
  \<^verbatim>\<open>shift\<close> drops the first element. The \<^verbatim>\<open>console.log\<close> that ends the method reads the
  state and changes nothing.\<close>

definition adjustDifficulty ::
  "direction \<Rightarrow> real \<Rightarrow> DynamicDifficultyAdjuster \<Rightarrow> DynamicDifficultyAdjuster" where
  "adjustDifficulty dir i s =
     (let multiplier = (if dir = increase then 1 + i else 1 - i);
          s1 = s\<lparr>currentSettings := (currentSettings s)
                 \<lparr>enemySpeed := enemySpeed (currentSettings s) * multiplier\<rparr>\<rparr>;
          s2 = s1\<lparr>currentSettings := (currentSettings s1)
                 \<lparr>gravityStrength := gravityStrength (currentSettings s1) * multiplier\<rparr>\<rparr>;
          s3 = (if dir = increase
                then s2\<lparr>currentSettings := (currentSettings s2)
                       \<lparr>enemyCount :=
                          min 10 (of_int \<lceil>enemyCount (currentSettings s2) * multiplier\<rceil>),
                        platformSpacing := platformSpacing (currentSettings s2) * 1.1,
                        powerUpFrequency := powerUpFrequency (currentSettings s2) * 0.9\<rparr>\<rparr>
                else s2\<lparr>currentSettings := (currentSettings s2)
                       \<lparr>enemyCount :=
                          max 1 (of_int \<lfloor>enemyCount (currentSettings s2) * multiplier\<rfloor>),
                        platformSpacing := platformSpacing (currentSettings s2) * 0.9,
                        powerUpFrequency := powerUpFrequency (currentSettings s2) * 1.1\<rparr>\<rparr>);
          s4 = clampSettings s3;
          s5 = s4\<lparr>adjustmentHistory :=
                    adjustmentHistory s4 @ [if dir = increase then i else - i]\<rparr>
      in if length (adjustmentHistory s5) > 10
         then s5\<lparr>adjustmentHistory := tl (adjustmentHistory s5)\<rparr>
         else s5)"

definition considerAdjustment :: "real \<Rightarrow> DynamicDifficultyAdjuster \<Rightarrow> DynamicDifficultyAdjuster" where
  "considerAdjustment now s =
     (if now - lastAdjustmentTime s < ADJUSTMENT_COOLDOWN then s
      else
        (let shouldAdjust = shouldAdjustDifficulty s in
         if adjust shouldAdjust
         then (adjustDifficulty (direction shouldAdjust) (intensity shouldAdjust) s)
                \<lparr>lastAdjustmentTime := now\<rparr>
         else s))"

subsection \<open>The event handler\<close>

text \<open>The \<^verbatim>\<open>switch\<close> of \<^verbatim>\<open>updateMetrics\<close> compares the event string with six literals and
  has no \<^verbatim>\<open>default\<close> branch. The test \<^verbatim>\<open>data?.expectedTime\<close> is a truthiness test: it
  fails for a missing object, a missing field and the number zero.\<close>

definition updateMetrics_switch ::
  "string \<Rightarrow> payload \<Rightarrow> real \<Rightarrow> DynamicDifficultyAdjuster \<Rightarrow> DynamicDifficultyAdjuster" where
  "updateMetrics_switch event data now s =
     (if event = ''level_start'' then
        s\<lparr>levelStartTime := now, deathCount := 0\<rparr>
      else if event = ''player_death'' then
        updateFrustrationLevel 0.1
          (s\<lparr>deathCount := deathCount s + 1,
             consecutiveFailures := consecutiveFailures s + 1,
             consecutiveSuccesses := 0\<rparr>)
      else if event = ''level_complete'' then
        (let levelTime = now - levelStartTime s;
             attempts = real (deathCount s) + 1;
             s1 = updateSuccessRate attempts s;
             s2 = s1\<lparr>consecutiveSuccesses := consecutiveSuccesses s1 + 1,
                     consecutiveFailures := 0\<rparr>
         in updateEngagementScore levelTime attempts 0 s2)
      else if event = ''ring_collected'' then
        updateFrustrationLevel (- 0.02) (s\<lparr>lastActionTime := now\<rparr>)
      else if event = ''power_up_collected'' then
        updateEngagementScore 0 0 0.05 s
      else if event = ''player_input'' then
        (case data of
           Data (Some expected) \<Rightarrow>
             if expected \<noteq> 0 then
               (let sample = now - expected; m = playerMetrics s
                in s\<lparr>playerMetrics := m\<lparr>reactionTime := lerp (reactionTime m) sample 0.1\<rparr>\<rparr>)
             else s
         | _ \<Rightarrow> s)
      else s)"

text \<open>\<^verbatim>\<open>now\<close> is the clock reading of \<^verbatim>\<open>updateMetrics\<close>, \<^verbatim>\<open>now'\<close> the later one of
  \<^verbatim>\<open>considerAdjustment\<close>.\<close>

definition updateMetrics ::
  "string \<Rightarrow> payload \<Rightarrow> real \<Rightarrow> real \<Rightarrow> DynamicDifficultyAdjuster \<Rightarrow> DynamicDifficultyAdjuster" where
  "updateMetrics event data now now' s =
     considerAdjustment now' (updateSkillLevel (updateMetrics_switch event data now s))"

definition reset :: "DynamicDifficultyAdjuster \<Rightarrow> DynamicDifficultyAdjuster" where
  "reset s =
     s\<lparr>currentSettings := baseSettings s,
       adjustmentHistory := [],
       consecutiveFailures := 0,
       consecutiveSuccesses := 0,
       deathCount := 0\<rparr>"

definition getCurrentSettings :: "DynamicDifficultyAdjuster \<Rightarrow> DifficultySettings" where
  "getCurrentSettings s = currentSettings s"

definition getPlayerMetrics :: "DynamicDifficultyAdjuster \<Rightarrow> PlayerMetrics" where
  "getPlayerMetrics s = playerMetrics s"

subsection \<open>Sequences of calls\<close>

text \<open>What a client can do with a constructed adjuster: call \<^verbatim>\<open>updateMetrics\<close> (with the two
  clock readings the call makes) or \<^verbatim>\<open>reset\<close>. \<open>run\<close> performs the calls from left to
  right; the states reachable from construction with baseline \<open>b\<close> are the
  \<open>run (constructor b) cs\<close>.\<close>

datatype call = UpdateMetrics string payload real real | Reset

fun apply_call :: "call \<Rightarrow> DynamicDifficultyAdjuster \<Rightarrow> DynamicDifficultyAdjuster" where
  "apply_call (UpdateMetrics event data now now') s = updateMetrics event data now now' s"
| "apply_call Reset s = reset s"

fun run :: "DynamicDifficultyAdjuster \<Rightarrow> call list \<Rightarrow> DynamicDifficultyAdjuster" where
  "run s [] = s"
| "run s (c # cs) = run (apply_call c s) cs"

text \<open>\<open>adjustmentApplied now s\<close>: \<^verbatim>\<open>considerAdjustment\<close>, reading the clock at \<open>now\<close> in state
  \<open>s\<close>, reaches its call of \<^verbatim>\<open>adjustDifficulty\<close>. \<open>adjustmentTimes s cs\<close> lists, in order,
  the clock readings at which the calls \<open>cs\<close>, started in \<open>s\<close>, apply an adjustment.\<close>

definition adjustmentApplied :: "real \<Rightarrow> DynamicDifficultyAdjuster \<Rightarrow> bool" where
  "adjustmentApplied now s \<longleftrightarrow>
     \<not> now - lastAdjustmentTime s < ADJUSTMENT_COOLDOWN \<and> adjust (shouldAdjustDifficulty s)"

fun appliedTime :: "call \<Rightarrow> DynamicDifficultyAdjuster \<Rightarrow> real option" where
  "appliedTime (UpdateMetrics event data now now') s =
     (if adjustmentApplied now' (updateSkillLevel (updateMetrics_switch event data now s))
      then Some now' else None)"
| "appliedTime Reset s = None"

fun adjustmentTimes :: "DynamicDifficultyAdjuster \<Rightarrow> call list \<Rightarrow> real list" where
  "adjustmentTimes s [] = []"
| "adjustmentTimes s (c # cs) =
     (case appliedTime c s of None \<Rightarrow> [] | Some t \<Rightarrow> [t]) @ adjustmentTimes (apply_call c s) cs"

subsection \<open>The specification's vocabulary\<close>

text \<open>The documented range of every clamped field of the settings.\<close>

definition withinBounds :: "DifficultySettings \<Rightarrow> bool" where
  "withinBounds c \<longleftrightarrow>
     50 \<le> enemySpeed c \<and> enemySpeed c \<le> 300 \<and>
     1 \<le> enemyCount c \<and> enemyCount c \<le> 10 \<and>
     50 \<le> platformSpacing c \<and> platformSpacing c \<le> 200 \<and>
     300 \<le> gravityStrength c \<and> gravityStrength c \<le> 800 \<and>
     0.1 \<le> powerUpFrequency c \<and> powerUpFrequency c \<le> 1"

text \<open>The two metrics that every call keeps within \<open>[0,1]\<close>.\<close>

definition rateAndFrustrationBounded :: "DynamicDifficultyAdjuster \<Rightarrow> bool" where
  "rateAndFrustrationBounded s \<longleftrightarrow>
     0 \<le> successRate (playerMetrics s) \<and> successRate (playerMetrics s) \<le> 1 \<and>
     0 \<le> frustrationLevel (playerMetrics s) \<and> frustrationLevel (playerMetrics s) \<le> 1"

text \<open>The decision rule as the specification words it: an ordered list of three rules
  (condition, direction, intensity), of which the first whose condition holds wins. It is
  written from the specification and compared with \<open>shouldAdjustDifficulty\<close> below.\<close>

definition decision_rules :: "DynamicDifficultyAdjuster \<Rightarrow> (bool \<times> direction \<times> real) list" where
  "decision_rules s =
     (let m = playerMetrics s in
      [ (frustrationLevel m > 0.7 \<or> successRate m < 0.4 \<or> consecutiveFailures s > 3,
           decrease, min (frustrationLevel m) 0.2),
        (engagementScore m < 0.4 \<or> successRate m > 0.9 \<or> consecutiveSuccesses s > 5,
           increase, if successRate m > 0.9 then 0.15 else 0.1),
        (\<bar>skillLevel m - 0.5\<bar> > 0.2,
           if sgn (skillLevel m - 0.5) = 1 then increase else decrease,
           \<bar>skillLevel m - 0.5\<bar> * 0.1) ])"

definition first_match :: "DynamicDifficultyAdjuster \<Rightarrow> (direction \<times> real) option" where
  "first_match s = map_option snd (find fst (decision_rules s))"

subsection \<open>Concrete inputs\<close>

text \<open>The baseline that \<^verbatim>\<open>main-enhanced.ts\<close> passes to the constructor; the constant
  \<^verbatim>\<open>GRAVITY_Y\<close> comes from a module outside the sources and is a parameter here.\<close>

definition baseDifficulty :: "real \<Rightarrow> DifficultySettings" where
  "baseDifficulty GRAVITY_Y =
     \<lparr> enemySpeed = 100, enemyCount = 3, platformSpacing = 120, ringRequirement = 5,
       gravityStrength = GRAVITY_Y, powerUpFrequency = 0.3 \<rparr>"

section \<open>Frame lemmas: what each method leaves alone\<close>

lemma clampSettings_frame:
  "playerMetrics (clampSettings s) = playerMetrics s"
  "baseSettings (clampSettings s) = baseSettings s"
  "adjustmentHistory (clampSettings s) = adjustmentHistory s"
  "lastAdjustmentTime (clampSettings s) = lastAdjustmentTime s"
  "deathCount (clampSettings s) = deathCount s"
  "levelStartTime (clampSettings s) = levelStartTime s"
  "lastActionTime (clampSettings s) = lastActionTime s"
  "consecutiveFailures (clampSettings s) = consecutiveFailures s"
  "consecutiveSuccesses (clampSettings s) = consecutiveSuccesses s"
  by (simp_all add: clampSettings_def Let_def)

lemma clampSettings_currentSettings:
  "currentSettings (clampSettings s) =
     \<lparr> enemySpeed = max 50 (min 300 (enemySpeed (currentSettings s))),
       enemyCount = max 1 (min 10 (enemyCount (currentSettings s))),
       platformSpacing = max 50 (min 200 (platformSpacing (currentSettings s))),
       ringRequirement = ringRequirement (currentSettings s),
       gravityStrength = max 300 (min 800 (gravityStrength (currentSettings s))),
       powerUpFrequency = max 0.1 (min 1 (powerUpFrequency (currentSettings s))) \<rparr>"
  by (simp add: clampSettings_def Let_def)

lemma adjustDifficulty_frame:
  "playerMetrics (adjustDifficulty d i s) = playerMetrics s"
  "baseSettings (adjustDifficulty d i s) = baseSettings s"
  "lastAdjustmentTime (adjustDifficulty d i s) = lastAdjustmentTime s"
  "deathCount (adjustDifficulty d i s) = deathCount s"
  "levelStartTime (adjustDifficulty d i s) = levelStartTime s"
  "lastActionTime (adjustDifficulty d i s) = lastActionTime s"
  "consecutiveFailures (adjustDifficulty d i s) = consecutiveFailures s"
  "consecutiveSuccesses (adjustDifficulty d i s) = consecutiveSuccesses s"
  by (simp_all add: adjustDifficulty_def Let_def clampSettings_frame)

lemma adjustDifficulty_increase_settings:
  "currentSettings (adjustDifficulty increase i s) =
     \<lparr> enemySpeed = max 50 (min 300 (enemySpeed (currentSettings s) * (1 + i))),
       enemyCount = max 1 (min 10 (min 10 (of_int \<lceil>enemyCount (currentSettings s) * (1 + i)\<rceil>))),
       platformSpacing = max 50 (min 200 (platformSpacing (currentSettings s) * 1.1)),
       ringRequirement = ringRequirement (currentSettings s),
       gravityStrength = max 300 (min 800 (gravityStrength (currentSettings s) * (1 + i))),
       powerUpFrequency = max 0.1 (min 1 (powerUpFrequency (currentSettings s) * 0.9)) \<rparr>"
  by (simp add: adjustDifficulty_def Let_def clampSettings_currentSettings)

lemma adjustDifficulty_decrease_settings:
  "currentSettings (adjustDifficulty decrease i s) =
     \<lparr> enemySpeed = max 50 (min 300 (enemySpeed (currentSettings s) * (1 - i))),
       enemyCount = max 1 (min 10 (max 1 (of_int \<lfloor>enemyCount (currentSettings s) * (1 - i)\<rfloor>))),
       platformSpacing = max 50 (min 200 (platformSpacing (currentSettings s) * 0.9)),
       ringRequirement = ringRequirement (currentSettings s),
       gravityStrength = max 300 (min 800 (gravityStrength (currentSettings s) * (1 - i))),
       powerUpFrequency = max 0.1 (min 1 (powerUpFrequency (currentSettings s) * 1.1)) \<rparr>"
  by (simp add: adjustDifficulty_def Let_def clampSettings_currentSettings)

lemma adjustDifficulty_history:
  "adjustmentHistory (adjustDifficulty d i s) =
     (let h = adjustmentHistory s @ [if d = increase then i else - i]
      in if length h > 10 then tl h else h)"
  by (simp add: adjustDifficulty_def Let_def clampSettings_frame)

lemma considerAdjustment_frame:
  "playerMetrics (considerAdjustment now s) = playerMetrics s"
  "baseSettings (considerAdjustment now s) = baseSettings s"
  "deathCount (considerAdjustment now s) = deathCount s"
  "levelStartTime (considerAdjustment now s) = levelStartTime s"
  "lastActionTime (considerAdjustment now s) = lastActionTime s"
  "consecutiveFailures (considerAdjustment now s) = consecutiveFailures s"
  "consecutiveSuccesses (considerAdjustment now s) = consecutiveSuccesses s"
  by (simp_all add: considerAdjustment_def Let_def adjustDifficulty_frame)

lemma updateSkillLevel_frame:
  "successRate (playerMetrics (updateSkillLevel s)) = successRate (playerMetrics s)"
  "averageAttempts (playerMetrics (updateSkillLevel s)) = averageAttempts (playerMetrics s)"
  "reactionTime (playerMetrics (updateSkillLevel s)) = reactionTime (playerMetrics s)"
  "frustrationLevel (playerMetrics (updateSkillLevel s)) = frustrationLevel (playerMetrics s)"
  "engagementScore (playerMetrics (updateSkillLevel s)) = engagementScore (playerMetrics s)"
  "baseSettings (updateSkillLevel s) = baseSettings s"
  "currentSettings (updateSkillLevel s) = currentSettings s"
  "adjustmentHistory (updateSkillLevel s) = adjustmentHistory s"
  "lastAdjustmentTime (updateSkillLevel s) = lastAdjustmentTime s"
  "deathCount (updateSkillLevel s) = deathCount s"
  "levelStartTime (updateSkillLevel s) = levelStartTime s"
  "lastActionTime (updateSkillLevel s) = lastActionTime s"
  "consecutiveFailures (updateSkillLevel s) = consecutiveFailures s"
  "consecutiveSuccesses (updateSkillLevel s) = consecutiveSuccesses s"
  by (simp_all add: updateSkillLevel_def Let_def)

lemma updateMetrics_switch_frame:
  "baseSettings (updateMetrics_switch e d n s) = baseSettings s"
  "currentSettings (updateMetrics_switch e d n s) = currentSettings s"
  "adjustmentHistory (updateMetrics_switch e d n s) = adjustmentHistory s"
  "lastAdjustmentTime (updateMetrics_switch e d n s) = lastAdjustmentTime s"
  by (simp_all add: updateMetrics_switch_def Let_def updateFrustrationLevel_def
        updateSuccessRate_def updateEngagementScore_def split: payload.split option.split)

section \<open>Auxiliary facts about single calls and runs\<close>

text \<open>The definitions that evaluating a concrete run unfolds.\<close>

lemmas eval_defs = updateMetrics_def updateMetrics_switch_def constructor_def baseDifficulty_def
  updateEngagementScore_def updateFrustrationLevel_def updateSuccessRate_def lerp_def
  updateSkillLevel_def considerAdjustment_def shouldAdjustDifficulty_def ADJUSTMENT_COOLDOWN_def
  adjustDifficulty_def clampSettings_def Let_def reset_def adjustmentApplied_def

lemma considerAdjustment_cases:
  "considerAdjustment now s =
     (if adjustmentApplied now s
      then (adjustDifficulty (direction (shouldAdjustDifficulty s))
              (intensity (shouldAdjustDifficulty s)) s)\<lparr>lastAdjustmentTime := now\<rparr>
      else s)"
  by (simp add: considerAdjustment_def adjustmentApplied_def Let_def)

lemma considerAdjustment_skipped:
  "now - lastAdjustmentTime s < 10000 \<Longrightarrow> considerAdjustment now s = s"
  by (simp add: considerAdjustment_def ADJUSTMENT_COOLDOWN_def)

lemma updateMetrics_frame:
  "baseSettings (updateMetrics e d n n' s) = baseSettings s"
  by (simp add: updateMetrics_def considerAdjustment_frame updateSkillLevel_frame
        updateMetrics_switch_frame)

lemma apply_call_baseSettings: "baseSettings (apply_call c s) = baseSettings s"
  by (cases c) (simp_all add: updateMetrics_frame reset_def)

lemma run_baseSettings: "baseSettings (run s cs) = baseSettings s"
  by (induction cs arbitrary: s) (simp_all add: apply_call_baseSettings)

lemma updateMetrics_switch_unknown:
  assumes "event \<notin> {''level_start'', ''player_death'', ''level_complete'', ''ring_collected'',
                     ''power_up_collected'', ''player_input''}"
  shows "updateMetrics_switch event data now s = s"
  using assms by (simp add: updateMetrics_switch_def)

lemma updateMetrics_switch_counters:
  "consecutiveFailures (updateMetrics_switch e d n s) =
     (if e = ''player_death'' then consecutiveFailures s + 1
      else if e = ''level_complete'' then 0 else consecutiveFailures s)"
  "consecutiveSuccesses (updateMetrics_switch e d n s) =
     (if e = ''player_death'' then 0
      else if e = ''level_complete'' then consecutiveSuccesses s + 1 else consecutiveSuccesses s)"
  by (simp_all add: updateMetrics_switch_def Let_def updateFrustrationLevel_def
        updateSuccessRate_def updateEngagementScore_def split: payload.split option.split)

lemma updateMetrics_counters:
  "consecutiveFailures (updateMetrics e d n n' s) =
     (if e = ''player_death'' then consecutiveFailures s + 1
      else if e = ''level_complete'' then 0 else consecutiveFailures s)"
  "consecutiveSuccesses (updateMetrics e d n n' s) =
     (if e = ''player_death'' then 0
      else if e = ''level_complete'' then consecutiveSuccesses s + 1 else consecutiveSuccesses s)"
  by (simp_all only: updateMetrics_def considerAdjustment_frame updateSkillLevel_frame
        updateMetrics_switch_counters)

lemma apply_call_exclusive:
  "consecutiveFailures s = 0 \<or> consecutiveSuccesses s = 0 \<Longrightarrow>
   consecutiveFailures (apply_call c s) = 0 \<or> consecutiveSuccesses (apply_call c s) = 0"
  by (cases c) (auto simp: updateMetrics_counters reset_def)

lemma run_exclusive:
  "consecutiveFailures s = 0 \<or> consecutiveSuccesses s = 0 \<Longrightarrow>
   consecutiveFailures (run s cs) = 0 \<or> consecutiveSuccesses (run s cs) = 0"
proof (induction cs arbitrary: s)
  case Nil
  then show ?case by simp
next
  case (Cons c cs)
  from Cons.prems have "consecutiveFailures (apply_call c s) = 0 \<or> consecutiveSuccesses (apply_call c s) = 0"
    by (rule apply_call_exclusive)
  then show ?case by (simp add: Cons.IH)
qed

lemma clamp_bounds:
  fixes lo hi x :: real
  assumes "lo \<le> hi"
  shows "lo \<le> max lo (min hi x)" "max lo (min hi x) \<le> hi"
  using assms by simp_all

lemma adjustDifficulty_withinBounds:
  "withinBounds (currentSettings (adjustDifficulty d i s))"
proof (cases d)
  case increase
  then show ?thesis
    by (simp add: adjustDifficulty_increase_settings withinBounds_def clamp_bounds)
next
  case decrease
  then show ?thesis
    by (simp add: adjustDifficulty_decrease_settings withinBounds_def clamp_bounds)
qed

lemma considerAdjustment_withinBounds:
  "withinBounds (currentSettings s) \<Longrightarrow> withinBounds (currentSettings (considerAdjustment now s))"
  by (simp add: considerAdjustment_cases adjustDifficulty_withinBounds)

lemma apply_call_withinBounds:
  assumes "withinBounds (baseSettings s)" "withinBounds (currentSettings s)"
  shows "withinBounds (currentSettings (apply_call c s))"
proof (cases c)
  case (UpdateMetrics e d n n')
  have "withinBounds (currentSettings (updateSkillLevel (updateMetrics_switch e d n s)))"
    using assms(2) by (simp add: updateSkillLevel_frame updateMetrics_switch_frame)
  then show ?thesis
    unfolding UpdateMetrics apply_call.simps updateMetrics_def
    by (rule considerAdjustment_withinBounds)
next
  case Reset
  then show ?thesis using assms(1) by (simp add: reset_def)
qed

lemma run_withinBounds:
  "withinBounds (baseSettings s) \<Longrightarrow> withinBounds (currentSettings s) \<Longrightarrow>
   withinBounds (currentSettings (run s cs))"
proof (induction cs arbitrary: s)
  case Nil
  then show ?case by simp
next
  case (Cons c cs)
  have "withinBounds (baseSettings (apply_call c s))"
    using Cons.prems(1) by (simp add: apply_call_baseSettings)
  moreover have "withinBounds (currentSettings (apply_call c s))"
    using Cons.prems by (rule apply_call_withinBounds)
  ultimately show ?case by (simp add: Cons.IH)
qed

lemma apply_call_lastAdjustmentTime:
  "lastAdjustmentTime (apply_call c s) =
     (case appliedTime c s of None \<Rightarrow> lastAdjustmentTime s | Some t \<Rightarrow> t)"
proof (cases c)
  case (UpdateMetrics e d n n')
  then show ?thesis
    by (simp add: updateMetrics_def considerAdjustment_cases updateSkillLevel_frame
          updateMetrics_switch_frame)
next
  case Reset
  then show ?thesis by (simp add: reset_def)
qed

lemma appliedTime_cooldown:
  "appliedTime c s = Some t \<Longrightarrow> lastAdjustmentTime s + 10000 \<le> t"
  by (cases c)
     (auto simp: adjustmentApplied_def ADJUSTMENT_COOLDOWN_def updateSkillLevel_frame
        updateMetrics_switch_frame split: if_splits)

lemma adjustmentTimes_spaced:
  "sorted_wrt (\<lambda>t t'. 10000 \<le> t' - t) (adjustmentTimes s cs)
   \<and> (\<forall>t \<in> set (adjustmentTimes s cs). lastAdjustmentTime s + 10000 \<le> t)"
proof (induction cs arbitrary: s)
  case Nil
  then show ?case by simp
next
  case (Cons c cs)
  note IH = Cons.IH [of "apply_call c s"]
  show ?case
  proof (cases "appliedTime c s")
    case None
    then have "lastAdjustmentTime (apply_call c s) = lastAdjustmentTime s"
      by (simp add: apply_call_lastAdjustmentTime)
    with IH None show ?thesis by simp
  next
    case (Some t)
    then have last: "lastAdjustmentTime (apply_call c s) = t"
      by (simp add: apply_call_lastAdjustmentTime)
    have t: "lastAdjustmentTime s + 10000 \<le> t"
      using Some by (rule appliedTime_cooldown)
    from IH last have later: "\<forall>t' \<in> set (adjustmentTimes (apply_call c s) cs). t + 10000 \<le> t'"
      by simp
    with IH Some t show ?thesis by fastforce
  qed
qed

lemma updateMetrics_cases:
  "updateMetrics e d n n' s =
     (case appliedTime (UpdateMetrics e d n n') s of
        None \<Rightarrow> updateSkillLevel (updateMetrics_switch e d n s)
      | Some t \<Rightarrow>
          (adjustDifficulty
             (direction (shouldAdjustDifficulty (updateSkillLevel (updateMetrics_switch e d n s))))
             (intensity (shouldAdjustDifficulty (updateSkillLevel (updateMetrics_switch e d n s))))
             (updateSkillLevel (updateMetrics_switch e d n s)))\<lparr>lastAdjustmentTime := t\<rparr>)"
  by (simp add: updateMetrics_def considerAdjustment_cases)

section \<open>Bounds on the metrics\<close>

text \<open>successRate and frustrationLevel stay within \<open>[0,1]\<close> in every reachable state: the
  first is a \<^verbatim>\<open>lerp\<close> towards \<open>1 / attempts\<close> with \<open>attempts \<ge> 1\<close>, the second is clamped.
  skillLevel has no such bound: a \<^verbatim>\<open>player_input\<close> marker later than the clock reading makes
  reactionTime negative and the reaction component larger than 1.\<close>

lemma skillLevel_exceeds_one:
  "reactionTime (playerMetrics (updateMetrics ''player_input'' (Data (Some 10020000)) 20000 20000
      (constructor (baseDifficulty 400)))) = - 999730
   \<and> skillLevel (playerMetrics (updateMetrics ''player_input'' (Data (Some 10020000)) 20000 20000
      (constructor (baseDifficulty 400)))) = 33831 / 1000"
  by (simp add: eval_defs)

lemma lerp_between:
  fixes a b :: real
  assumes "0 \<le> a" "a \<le> 1" "0 \<le> b" "b \<le> 1" "0 \<le> t" "t \<le> 1"
  shows "0 \<le> lerp a b t \<and> lerp a b t \<le> 1"
proof -
  have eq: "lerp a b t = (1 - t) * a + t * b"
    by (simp add: lerp_def algebra_simps)
  have "0 \<le> (1 - t) * a" "0 \<le> t * b"
    using assms by simp_all
  moreover have "(1 - t) * a \<le> (1 - t) * 1"
    using assms by (intro mult_left_mono) simp_all
  moreover have "t * b \<le> t * 1"
    using assms by (intro mult_left_mono) simp_all
  ultimately show ?thesis
    unfolding eq by simp
qed

lemma updateMetrics_switch_bounded:
  assumes "rateAndFrustrationBounded s"
  shows "rateAndFrustrationBounded (updateMetrics_switch e d n s)"
proof -
  have "0 \<le> lerp (successRate (playerMetrics s)) (1 / (real (deathCount s) + 1)) 0.2
        \<and> lerp (successRate (playerMetrics s)) (1 / (real (deathCount s) + 1)) 0.2 \<le> 1"
    using assms by (intro lerp_between) (simp_all add: rateAndFrustrationBounded_def)
  then show ?thesis
    using assms
    by (simp add: rateAndFrustrationBounded_def updateMetrics_switch_def Let_def
          updateFrustrationLevel_def updateSuccessRate_def updateEngagementScore_def
          split: payload.split option.split)
qed

lemma apply_call_bounded:
  "rateAndFrustrationBounded s \<Longrightarrow> rateAndFrustrationBounded (apply_call c s)"
proof (cases c)
  case (UpdateMetrics e d n n')
  assume "rateAndFrustrationBounded s"
  then have "rateAndFrustrationBounded (updateMetrics_switch e d n s)"
    by (rule updateMetrics_switch_bounded)
  then show ?thesis
    by (simp add: UpdateMetrics rateAndFrustrationBounded_def updateMetrics_def
          considerAdjustment_frame updateSkillLevel_frame)
next
  case Reset
  assume "rateAndFrustrationBounded s"
  then show ?thesis
    by (simp add: Reset rateAndFrustrationBounded_def reset_def)
qed

lemma run_bounded:
  "rateAndFrustrationBounded s \<Longrightarrow> rateAndFrustrationBounded (run s cs)"
  by (induction cs arbitrary: s) (simp_all add: apply_call_bounded)

lemma successRate_frustrationLevel_bounded:
  "rateAndFrustrationBounded (run (constructor b) cs)"
  by (rule run_bounded) (simp add: rateAndFrustrationBounded_def constructor_def)

section \<open>The claims\<close>

subsection \<open>Metrics and event handling\<close>

text \<open>
  \<^bold>\<open>C1.\<close> The claim: starting from the constructed state, successRate, frustrationLevel,
  engagementScore and skillLevel stay within \<open>[0,1]\<close> after every event, in particular
  engagementScore after \<^verbatim>\<open>power_up_collected\<close>. The code does not keep it: the handler of
  \<^verbatim>\<open>power_up_collected\<close> calls \<^verbatim>\<open>updateEngagementScore(0, 0, 0.05)\<close>, whose sample is
  \<open>(1 + 1) / 2 + 0.05 = 1.05\<close>, and the result of the \<^verbatim>\<open>lerp\<close> is stored without the clamp
  that \<^verbatim>\<open>updateFrustrationLevel\<close> applies. Six power-ups collected after construction put
  engagementScore at \<open>20176457 / 20000000\<close>, which is above 1.
\<close>

theorem engagementScore_exceeds_one:
  "engagementScore (playerMetrics (run (constructor (baseDifficulty 400))
     [UpdateMetrics ''power_up_collected'' NoData 20000 20000,
      UpdateMetrics ''power_up_collected'' NoData 21000 21000,
      UpdateMetrics ''power_up_collected'' NoData 22000 22000,
      UpdateMetrics ''power_up_collected'' NoData 23000 23000,
      UpdateMetrics ''power_up_collected'' NoData 24000 24000,
      UpdateMetrics ''power_up_collected'' NoData 25000 25000])) = 20176457 / 20000000
   \<and> \<not> engagementScore (playerMetrics (run (constructor (baseDifficulty 400))
     [UpdateMetrics ''power_up_collected'' NoData 20000 20000,
      UpdateMetrics ''power_up_collected'' NoData 21000 21000,
      UpdateMetrics ''power_up_collected'' NoData 22000 22000,
      UpdateMetrics ''power_up_collected'' NoData 23000 23000,
      UpdateMetrics ''power_up_collected'' NoData 24000 24000,
      UpdateMetrics ''power_up_collected'' NoData 25000 25000])) \<le> 1"
  by (simp add: eval_defs)

text \<open>
  \<^bold>\<open>C2.\<close> The claim: an event kind outside the six known ones leaves the state as it was.
  It fails, because \<^verbatim>\<open>updateSkillLevel\<close> and \<^verbatim>\<open>considerAdjustment\<close> follow the \<^verbatim>\<open>switch\<close>
  for every event string: an unknown event right after construction moves skillLevel from
  \<open>1/2\<close> to \<open>149/300\<close>, and one that arrives when relief is due and the cooldown is over
  lowers the settings.
\<close>

theorem unknown_event_counterexample:
  "updateMetrics ''bonus_stage'' NoData 20000 20000 (constructor (baseDifficulty 400))
     \<noteq> constructor (baseDifficulty 400)
   \<and> skillLevel (playerMetrics
        (updateMetrics ''bonus_stage'' NoData 20000 20000 (constructor (baseDifficulty 400))))
     = 149 / 300
   \<and> enemySpeed (currentSettings (run (constructor (baseDifficulty 400))
        [UpdateMetrics ''player_death'' NoData 5000 5000,
         UpdateMetrics ''player_death'' NoData 5000 5000,
         UpdateMetrics ''player_death'' NoData 5000 5000,
         UpdateMetrics ''player_death'' NoData 5000 5000])) = 100
   \<and> enemySpeed (currentSettings (run (constructor (baseDifficulty 400))
        [UpdateMetrics ''player_death'' NoData 5000 5000,
         UpdateMetrics ''player_death'' NoData 5000 5000,
         UpdateMetrics ''player_death'' NoData 5000 5000,
         UpdateMetrics ''player_death'' NoData 5000 5000,
         UpdateMetrics ''bonus_stage'' NoData 20000 20000])) = 80"
proof -
  have "skillLevel (playerMetrics
        (updateMetrics ''bonus_stage'' NoData 20000 20000 (constructor (baseDifficulty 400))))
     = 149 / 300"
    by (simp add: eval_defs)
  moreover have "skillLevel (playerMetrics (constructor (baseDifficulty 400))) \<noteq> 149 / 300"
    by (simp add: constructor_def)
  ultimately have "updateMetrics ''bonus_stage'' NoData 20000 20000 (constructor (baseDifficulty 400))
     \<noteq> constructor (baseDifficulty 400)"
    by metis
  then show ?thesis
    by (simp add: eval_defs)
qed

text \<open>
  The amended claim C2: an event kind outside the six known ones runs no handler of the
  \<^verbatim>\<open>switch\<close>, so \<^verbatim>\<open>updateMetrics\<close> does exactly what follows the \<^verbatim>\<open>switch\<close>: it recomputes
  skillLevel and then considers an adjustment. successRate, averageAttempts, reactionTime,
  frustrationLevel and engagementScore keep their values, and skillLevel moves by the usual
  \<^verbatim>\<open>lerp\<close> of weight 0.1.
\<close>

theorem unknown_event_still_updates_skill:
  assumes "event \<notin> {''level_start'', ''player_death'', ''level_complete'', ''ring_collected'',
                     ''power_up_collected'', ''player_input''}"
  shows "updateMetrics event data now now' s = considerAdjustment now' (updateSkillLevel s)
   \<and> successRate (playerMetrics (updateMetrics event data now now' s)) = successRate (playerMetrics s)
   \<and> averageAttempts (playerMetrics (updateMetrics event data now now' s)) = averageAttempts (playerMetrics s)
   \<and> reactionTime (playerMetrics (updateMetrics event data now now' s)) = reactionTime (playerMetrics s)
   \<and> frustrationLevel (playerMetrics (updateMetrics event data now now' s)) = frustrationLevel (playerMetrics s)
   \<and> engagementScore (playerMetrics (updateMetrics event data now now' s)) = engagementScore (playerMetrics s)
   \<and> skillLevel (playerMetrics (updateMetrics event data now now' s)) =
       lerp (skillLevel (playerMetrics s))
         ((successRate (playerMetrics s) + max 0 (1 - reactionTime (playerMetrics s) / 1000)
            + min (real (consecutiveSuccesses s) / 5) 1) / 3) 0.1"
proof -
  have sw: "updateMetrics_switch event data now s = s"
    using assms by (rule updateMetrics_switch_unknown)
  have skill: "skillLevel (playerMetrics (updateSkillLevel s)) =
       lerp (skillLevel (playerMetrics s))
         ((successRate (playerMetrics s) + max 0 (1 - reactionTime (playerMetrics s) / 1000)
            + min (real (consecutiveSuccesses s) / 5) 1) / 3) 0.1"
    by (simp add: updateSkillLevel_def Let_def)
  show ?thesis
    by (simp add: updateMetrics_def sw considerAdjustment_frame updateSkillLevel_frame skill)
qed

theorem unknown_event_still_updates_skill_witness:
  "''bonus_stage'' \<notin> {''level_start'', ''player_death'', ''level_complete'', ''ring_collected'',
                      ''power_up_collected'', ''player_input''}
   \<and> updateMetrics ''bonus_stage'' NoData 20000 20000 (constructor (baseDifficulty 400)) =
       considerAdjustment 20000 (updateSkillLevel (constructor (baseDifficulty 400)))
   \<and> engagementScore (playerMetrics
        (updateMetrics ''bonus_stage'' NoData 20000 20000 (constructor (baseDifficulty 400)))) = 7 / 10
   \<and> skillLevel (playerMetrics
        (updateMetrics ''bonus_stage'' NoData 20000 20000 (constructor (baseDifficulty 400)))) = 149 / 300"
proof -
  have known: "''bonus_stage'' \<notin> {''level_start'', ''player_death'', ''level_complete'',
                  ''ring_collected'', ''power_up_collected'', ''player_input''}"
    by simp
  show ?thesis
    using known unknown_event_still_updates_skill [OF known, of NoData 20000 20000
        "constructor (baseDifficulty 400)"]
    by (simp add: eval_defs)
qed

text \<open>
  \<^bold>\<open>C10.\<close> A \<^verbatim>\<open>player_input\<close> event whose marker \<^verbatim>\<open>expectedTime\<close> is 0 is handled exactly
  as one with no marker or no payload at all, and leaves reactionTime as it was, since the
  test \<^verbatim>\<open>data?.expectedTime\<close> is one of truthiness. Every nonzero marker \<open>t\<close>, also one
  later than the clock reading, replaces reactionTime by the \<^verbatim>\<open>lerp\<close> of weight 0.1
  towards \<open>now - t\<close>.
\<close>

theorem player_input_truthiness:
  "updateMetrics ''player_input'' (Data (Some 0)) now now' s =
     updateMetrics ''player_input'' (Data None) now now' s
   \<and> updateMetrics ''player_input'' (Data (Some 0)) now now' s =
     updateMetrics ''player_input'' NoData now now' s
   \<and> reactionTime (playerMetrics (updateMetrics ''player_input'' (Data (Some 0)) now now' s)) =
     reactionTime (playerMetrics s)
   \<and> (t \<noteq> 0 \<longrightarrow>
        reactionTime (playerMetrics (updateMetrics ''player_input'' (Data (Some t)) now now' s)) =
        lerp (reactionTime (playerMetrics s)) (now - t) 0.1)"
  by (simp add: updateMetrics_def considerAdjustment_frame updateSkillLevel_frame
        updateMetrics_switch_def Let_def)

theorem player_input_truthiness_witness:
  "(30000 :: real) \<noteq> 0
   \<and> reactionTime (playerMetrics (updateMetrics ''player_input'' (Data (Some 0)) 20000 20000
        (constructor (baseDifficulty 400)))) = 300
   \<and> reactionTime (playerMetrics (updateMetrics ''player_input'' (Data (Some 30000)) 20000 20000
        (constructor (baseDifficulty 400)))) = - 730"
  using player_input_truthiness [of 20000 20000 "constructor (baseDifficulty 400)" 30000]
  by (simp add: eval_defs)

subsection \<open>Settings and the adjustment decision\<close>

text \<open>
  \<^bold>\<open>C3.\<close> The claim: for every baseline, every settings field lies within its documented
  range after each step. It fails for a baseline that is itself out of range: the
  constructor and \<^verbatim>\<open>reset\<close> copy the baseline as it is, and only \<^verbatim>\<open>adjustDifficulty\<close>
  clamps. With an enemySpeed of 1000 in the baseline, the settings after a first
  \<^verbatim>\<open>level_start\<close> (which applies no adjustment) still hold 1000.
\<close>

theorem settings_within_bounds_counterexample:
  "\<not> withinBounds (currentSettings (run (constructor ((baseDifficulty 400)\<lparr>enemySpeed := 1000\<rparr>))
        [UpdateMetrics ''level_start'' NoData 20000 20000]))"
  by (simp add: eval_defs withinBounds_def)

text \<open>
  The amended claim C3: when the baseline supplied at construction lies within the
  documented ranges, so do the current settings after every sequence of
  \<^verbatim>\<open>updateMetrics\<close> and \<^verbatim>\<open>reset\<close> calls; and whatever the state, the settings lie within
  the ranges right after any applied adjustment.
\<close>

theorem settings_within_bounds:
  "(withinBounds b \<longrightarrow> withinBounds (currentSettings (run (constructor b) cs)))
   \<and> withinBounds (currentSettings (adjustDifficulty d i s))"
proof (intro conjI impI)
  assume "withinBounds b"
  then show "withinBounds (currentSettings (run (constructor b) cs))"
    by (intro run_withinBounds) (simp_all add: constructor_def)
qed (rule adjustDifficulty_withinBounds)

theorem settings_within_bounds_witness:
  "withinBounds (baseDifficulty 400)
   \<and> withinBounds (currentSettings (run (constructor (baseDifficulty 400))
        [UpdateMetrics ''player_death'' NoData 20000 20000,
         UpdateMetrics ''player_death'' NoData 20000 20000,
         UpdateMetrics ''player_death'' NoData 20000 20000,
         UpdateMetrics ''player_death'' NoData 20000 20000]))
   \<and> currentSettings (run (constructor (baseDifficulty 400))
        [UpdateMetrics ''player_death'' NoData 20000 20000,
         UpdateMetrics ''player_death'' NoData 20000 20000,
         UpdateMetrics ''player_death'' NoData 20000 20000,
         UpdateMetrics ''player_death'' NoData 20000 20000]) =
       \<lparr> enemySpeed = 80, enemyCount = 2, platformSpacing = 108, ringRequirement = 5,
         gravityStrength = 320, powerUpFrequency = 0.33 \<rparr>"
  using settings_within_bounds [of "baseDifficulty 400"
        "[UpdateMetrics ''player_death'' NoData 20000 20000,
         UpdateMetrics ''player_death'' NoData 20000 20000,
         UpdateMetrics ''player_death'' NoData 20000 20000,
         UpdateMetrics ''player_death'' NoData 20000 20000]"
        decrease "0.2" "constructor (baseDifficulty 400)"]
  by (simp add: eval_defs withinBounds_def)

text \<open>
  \<^bold>\<open>C4.\<close> When the cooldown gate passes, \<^verbatim>\<open>considerAdjustment\<close> applies the first rule
  that matches of the ordered list relief, challenge, skill-matching, with the direction and
  intensity that rule gives, and records the clock reading; when no rule matches it leaves
  the state alone. The rule list \<open>decision_rules\<close> follows the specification's wording,
  \<open>shouldAdjustDifficulty\<close> the source.
\<close>

theorem considerAdjustment_priority_rules:
  assumes "\<not> now - lastAdjustmentTime s < 10000"
  shows "considerAdjustment now s =
           (case first_match s of
              None \<Rightarrow> s
            | Some (d, i) \<Rightarrow> (adjustDifficulty d i s)\<lparr>lastAdjustmentTime := now\<rparr>)"
  using assms
  by (simp add: considerAdjustment_def ADJUSTMENT_COOLDOWN_def shouldAdjustDifficulty_def
        first_match_def decision_rules_def Let_def sgn_if)

theorem considerAdjustment_priority_rules_witness:
  "\<not> 20000 - lastAdjustmentTime (run (constructor (baseDifficulty 400))
        [UpdateMetrics ''player_death'' NoData 5000 5000,
         UpdateMetrics ''player_death'' NoData 5000 5000,
         UpdateMetrics ''player_death'' NoData 5000 5000,
         UpdateMetrics ''player_death'' NoData 5000 5000]) < 10000
   \<and> first_match (run (constructor (baseDifficulty 400))
        [UpdateMetrics ''player_death'' NoData 5000 5000,
         UpdateMetrics ''player_death'' NoData 5000 5000,
         UpdateMetrics ''player_death'' NoData 5000 5000,
         UpdateMetrics ''player_death'' NoData 5000 5000]) = Some (decrease, 0.2)
   \<and> enemySpeed (currentSettings (considerAdjustment 20000 (run (constructor (baseDifficulty 400))
        [UpdateMetrics ''player_death'' NoData 5000 5000,
         UpdateMetrics ''player_death'' NoData 5000 5000,
         UpdateMetrics ''player_death'' NoData 5000 5000,
         UpdateMetrics ''player_death'' NoData 5000 5000]))) = 80
   \<and> lastAdjustmentTime (considerAdjustment 20000 (run (constructor (baseDifficulty 400))
        [UpdateMetrics ''player_death'' NoData 5000 5000,
         UpdateMetrics ''player_death'' NoData 5000 5000,
         UpdateMetrics ''player_death'' NoData 5000 5000,
         UpdateMetrics ''player_death'' NoData 5000 5000])) = 20000"
  using considerAdjustment_priority_rules [of 20000 "run (constructor (baseDifficulty 400))
        [UpdateMetrics ''player_death'' NoData 5000 5000,
         UpdateMetrics ''player_death'' NoData 5000 5000,
         UpdateMetrics ''player_death'' NoData 5000 5000,
         UpdateMetrics ''player_death'' NoData 5000 5000]"]
  by (simp add: eval_defs first_match_def decision_rules_def)

text \<open>
  \<^bold>\<open>C5.\<close> An adjustment of intensity \<open>i\<close> multiplies enemySpeed and gravityStrength by
  \<open>1 + i\<close> (increase) or \<open>1 - i\<close> (decrease). On increase enemyCount is multiplied, rounded
  up and capped at 10, platformSpacing is multiplied by 1.1 and powerUpFrequency by 0.9; on
  decrease enemyCount is multiplied, rounded down and floored at 1, platformSpacing is
  multiplied by 0.9 and powerUpFrequency by 1.1. The five fields are then clamped to their
  ranges; ringRequirement is not touched.
\<close>

theorem adjustDifficulty_scaling:
  "currentSettings (adjustDifficulty increase i s) =
     \<lparr> enemySpeed = max 50 (min 300 (enemySpeed (currentSettings s) * (1 + i))),
       enemyCount = max 1 (min 10 (min 10 (of_int \<lceil>enemyCount (currentSettings s) * (1 + i)\<rceil>))),
       platformSpacing = max 50 (min 200 (platformSpacing (currentSettings s) * 1.1)),
       ringRequirement = ringRequirement (currentSettings s),
       gravityStrength = max 300 (min 800 (gravityStrength (currentSettings s) * (1 + i))),
       powerUpFrequency = max 0.1 (min 1 (powerUpFrequency (currentSettings s) * 0.9)) \<rparr>
   \<and> currentSettings (adjustDifficulty decrease i s) =
     \<lparr> enemySpeed = max 50 (min 300 (enemySpeed (currentSettings s) * (1 - i))),
       enemyCount = max 1 (min 10 (max 1 (of_int \<lfloor>enemyCount (currentSettings s) * (1 - i)\<rfloor>))),
       platformSpacing = max 50 (min 200 (platformSpacing (currentSettings s) * 0.9)),
       ringRequirement = ringRequirement (currentSettings s),
       gravityStrength = max 300 (min 800 (gravityStrength (currentSettings s) * (1 - i))),
       powerUpFrequency = max 0.1 (min 1 (powerUpFrequency (currentSettings s) * 1.1)) \<rparr>"
  by (simp only: adjustDifficulty_increase_settings adjustDifficulty_decrease_settings simp_thms)

theorem adjustDifficulty_scaling_witness:
  "currentSettings (adjustDifficulty increase 0.15 (constructor (baseDifficulty 400))) =
     \<lparr> enemySpeed = 115, enemyCount = 4, platformSpacing = 132, ringRequirement = 5,
       gravityStrength = 460, powerUpFrequency = 0.27 \<rparr>
   \<and> currentSettings (adjustDifficulty decrease 0.2 (constructor (baseDifficulty 400))) =
     \<lparr> enemySpeed = 80, enemyCount = 2, platformSpacing = 108, ringRequirement = 5,
       gravityStrength = 320, powerUpFrequency = 0.33 \<rparr>"
  using adjustDifficulty_scaling [of "0.15" "constructor (baseDifficulty 400)"]
    adjustDifficulty_scaling [of "0.2" "constructor (baseDifficulty 400)"]
  by (simp add: constructor_def baseDifficulty_def)

subsection \<open>Cooldown\<close>

text \<open>
  \<^bold>\<open>C6.\<close> Whatever the clock readings, the readings at which a run from construction
  applies adjustments are pairwise at least 10000 ms apart, each later one at least
  10000 ms after each earlier one. A call sets lastAdjustmentTime to its clock reading
  when it applies an adjustment and leaves it alone otherwise; and \<^verbatim>\<open>updateMetrics\<close> calls
  \<^verbatim>\<open>adjustDifficulty\<close> exactly when \<open>appliedTime\<close> says so.
\<close>

theorem adjustments_respect_cooldown:
  "sorted_wrt (\<lambda>t t'. 10000 \<le> t' - t) (adjustmentTimes (constructor b) cs)
   \<and> lastAdjustmentTime (apply_call c s) =
       (case appliedTime c s of None \<Rightarrow> lastAdjustmentTime s | Some t \<Rightarrow> t)
   \<and> updateMetrics e d n n' s =
       (case appliedTime (UpdateMetrics e d n n') s of
          None \<Rightarrow> updateSkillLevel (updateMetrics_switch e d n s)
        | Some t \<Rightarrow>
            (adjustDifficulty
               (direction (shouldAdjustDifficulty (updateSkillLevel (updateMetrics_switch e d n s))))
               (intensity (shouldAdjustDifficulty (updateSkillLevel (updateMetrics_switch e d n s))))
               (updateSkillLevel (updateMetrics_switch e d n s)))\<lparr>lastAdjustmentTime := t\<rparr>)"
  using adjustmentTimes_spaced [of "constructor b" cs] apply_call_lastAdjustmentTime [of c s]
    updateMetrics_cases [of e d n n' s]
  by (simp only: simp_thms)

theorem adjustments_respect_cooldown_witness:
  "adjustmentTimes (constructor (baseDifficulty 400))
     [UpdateMetrics ''player_death'' NoData 20000 20000,
      UpdateMetrics ''player_death'' NoData 20000 20000,
      UpdateMetrics ''player_death'' NoData 20000 20000,
      UpdateMetrics ''player_death'' NoData 20000 20000,
      UpdateMetrics ''player_death'' NoData 23000 23000,
      UpdateMetrics ''player_death'' NoData 31000 31000] = [20000, 31000]
   \<and> sorted_wrt (\<lambda>t t'. 10000 \<le> t' - t) [20000, 31000 :: real]
   \<and> appliedTime (UpdateMetrics ''level_start'' NoData 20000 20000)
        (constructor (baseDifficulty 400)) = None
   \<and> lastAdjustmentTime (apply_call (UpdateMetrics ''level_start'' NoData 20000 20000)
        (constructor (baseDifficulty 400))) = 0"
  using adjustments_respect_cooldown [of "baseDifficulty 400"
     "[UpdateMetrics ''player_death'' NoData 20000 20000,
      UpdateMetrics ''player_death'' NoData 20000 20000,
      UpdateMetrics ''player_death'' NoData 20000 20000,
      UpdateMetrics ''player_death'' NoData 20000 20000,
      UpdateMetrics ''player_death'' NoData 23000 23000,
      UpdateMetrics ''player_death'' NoData 31000 31000]"
     "UpdateMetrics ''level_start'' NoData 20000 20000" "constructor (baseDifficulty 400)"
     "''level_start''" NoData 20000 20000]
  by (simp add: eval_defs)

subsection \<open>Reset and the counters\<close>

text \<open>
  \<^bold>\<open>C7.\<close> In every state reachable from construction with baseline \<open>b\<close>, \<^verbatim>\<open>reset\<close> makes
  the current settings equal to \<open>b\<close>, empties adjustmentHistory, zeroes consecutiveFailures,
  consecutiveSuccesses and deathCount, leaves the player metrics as they are, and a second
  \<^verbatim>\<open>reset\<close> changes nothing more.
\<close>

theorem reset_restores_baseline:
  "currentSettings (reset (run (constructor b) cs)) = b
   \<and> adjustmentHistory (reset (run (constructor b) cs)) = []
   \<and> consecutiveFailures (reset (run (constructor b) cs)) = 0
   \<and> consecutiveSuccesses (reset (run (constructor b) cs)) = 0
   \<and> deathCount (reset (run (constructor b) cs)) = 0
   \<and> playerMetrics (reset (run (constructor b) cs)) = playerMetrics (run (constructor b) cs)
   \<and> reset (reset (run (constructor b) cs)) = reset (run (constructor b) cs)"
proof -
  have "baseSettings (run (constructor b) cs) = b"
    by (simp add: run_baseSettings constructor_def)
  then show ?thesis
    by (simp add: reset_def)
qed

theorem reset_restores_baseline_witness:
  "currentSettings (run (constructor (baseDifficulty 400))
        [UpdateMetrics ''player_death'' NoData 20000 20000,
         UpdateMetrics ''player_death'' NoData 20000 20000,
         UpdateMetrics ''player_death'' NoData 20000 20000,
         UpdateMetrics ''player_death'' NoData 20000 20000]) \<noteq> baseDifficulty 400
   \<and> currentSettings (reset (run (constructor (baseDifficulty 400))
        [UpdateMetrics ''player_death'' NoData 20000 20000,
         UpdateMetrics ''player_death'' NoData 20000 20000,
         UpdateMetrics ''player_death'' NoData 20000 20000,
         UpdateMetrics ''player_death'' NoData 20000 20000])) = baseDifficulty 400
   \<and> frustrationLevel (playerMetrics (reset (run (constructor (baseDifficulty 400))
        [UpdateMetrics ''player_death'' NoData 20000 20000,
         UpdateMetrics ''player_death'' NoData 20000 20000,
         UpdateMetrics ''player_death'' NoData 20000 20000,
         UpdateMetrics ''player_death'' NoData 20000 20000]))) = 7 / 10"
  using reset_restores_baseline [of "baseDifficulty 400"
        "[UpdateMetrics ''player_death'' NoData 20000 20000,
         UpdateMetrics ''player_death'' NoData 20000 20000,
         UpdateMetrics ''player_death'' NoData 20000 20000,
         UpdateMetrics ''player_death'' NoData 20000 20000]"]
  by (simp add: eval_defs)

text \<open>
  \<^bold>\<open>C8.\<close> In every state reachable from construction by \<^verbatim>\<open>updateMetrics\<close> and \<^verbatim>\<open>reset\<close>
  calls, one of consecutiveFailures and consecutiveSuccesses is zero. \<^verbatim>\<open>player_death\<close>
  increments the first and zeroes the second, \<^verbatim>\<open>level_complete\<close> increments the second and
  zeroes the first, every other event leaves both as they are, and \<^verbatim>\<open>reset\<close> zeroes both.
\<close>

theorem counters_mutually_exclusive:
  "(consecutiveFailures (run (constructor b) cs) = 0 \<or>
      consecutiveSuccesses (run (constructor b) cs) = 0)
   \<and> consecutiveFailures (updateMetrics ''player_death'' d n n' s) = consecutiveFailures s + 1
   \<and> consecutiveSuccesses (updateMetrics ''player_death'' d n n' s) = 0
   \<and> consecutiveSuccesses (updateMetrics ''level_complete'' d n n' s) = consecutiveSuccesses s + 1
   \<and> consecutiveFailures (updateMetrics ''level_complete'' d n n' s) = 0
   \<and> (e \<noteq> ''player_death'' \<and> e \<noteq> ''level_complete'' \<longrightarrow>
        consecutiveFailures (updateMetrics e d n n' s) = consecutiveFailures s \<and>
        consecutiveSuccesses (updateMetrics e d n n' s) = consecutiveSuccesses s)
   \<and> consecutiveFailures (reset s) = 0 \<and> consecutiveSuccesses (reset s) = 0"
proof -
  have "consecutiveFailures (constructor b) = 0 \<or> consecutiveSuccesses (constructor b) = 0"
    by (simp add: constructor_def)
  then have "consecutiveFailures (run (constructor b) cs) = 0 \<or>
      consecutiveSuccesses (run (constructor b) cs) = 0"
    by (rule run_exclusive)
  then show ?thesis
    by (simp add: updateMetrics_counters reset_def)
qed

theorem counters_mutually_exclusive_witness:
  "consecutiveFailures (run (constructor (baseDifficulty 400))
        [UpdateMetrics ''level_start'' NoData 20000 20000,
         UpdateMetrics ''player_death'' NoData 21000 21000,
         UpdateMetrics ''player_death'' NoData 22000 22000,
         UpdateMetrics ''level_complete'' NoData 25000 25000]) = 0
   \<and> consecutiveSuccesses (run (constructor (baseDifficulty 400))
        [UpdateMetrics ''level_start'' NoData 20000 20000,
         UpdateMetrics ''player_death'' NoData 21000 21000,
         UpdateMetrics ''player_death'' NoData 22000 22000,
         UpdateMetrics ''level_complete'' NoData 25000 25000]) = 1
   \<and> ''ring_collected'' \<noteq> ''player_death'' \<and> ''ring_collected'' \<noteq> ''level_complete''
   \<and> consecutiveFailures (updateMetrics ''ring_collected'' NoData 23000 23000
        (run (constructor (baseDifficulty 400))
          [UpdateMetrics ''level_start'' NoData 20000 20000,
           UpdateMetrics ''player_death'' NoData 21000 21000,
           UpdateMetrics ''player_death'' NoData 22000 22000])) = 2"
  using counters_mutually_exclusive [of "baseDifficulty 400"
        "[UpdateMetrics ''level_start'' NoData 20000 20000,
         UpdateMetrics ''player_death'' NoData 21000 21000,
         UpdateMetrics ''player_death'' NoData 22000 22000,
         UpdateMetrics ''level_complete'' NoData 25000 25000]"
        NoData 23000 23000
        "run (constructor (baseDifficulty 400))
          [UpdateMetrics ''level_start'' NoData 20000 20000,
           UpdateMetrics ''player_death'' NoData 21000 21000,
           UpdateMetrics ''player_death'' NoData 22000 22000]"
        "''ring_collected''"]
  by (simp add: eval_defs)

text \<open>
  \<^bold>\<open>C9.\<close> \<^verbatim>\<open>reset\<close> leaves lastAdjustmentTime as it was. So a call of \<^verbatim>\<open>updateMetrics\<close>
  that follows a \<^verbatim>\<open>reset\<close> and reads the clock less than 10000 ms after the last adjustment
  made before the \<^verbatim>\<open>reset\<close> applies no adjustment: the settings stay at the baseline, the
  history stays empty and lastAdjustmentTime stays put.
\<close>

theorem reset_keeps_cooldown:
  "lastAdjustmentTime (reset s) = lastAdjustmentTime s
   \<and> (now' - lastAdjustmentTime s < 10000 \<longrightarrow>
        appliedTime (UpdateMetrics e d now now') (reset s) = None
        \<and> currentSettings (updateMetrics e d now now' (reset s)) = baseSettings s
        \<and> adjustmentHistory (updateMetrics e d now now' (reset s)) = []
        \<and> lastAdjustmentTime (updateMetrics e d now now' (reset s)) = lastAdjustmentTime s)"
proof -
  have last: "lastAdjustmentTime (reset s) = lastAdjustmentTime s"
    by (simp add: reset_def)
  let ?s' = "updateSkillLevel (updateMetrics_switch e d now (reset s))"
  have pre: "lastAdjustmentTime ?s' = lastAdjustmentTime s"
            "currentSettings ?s' = baseSettings s" "adjustmentHistory ?s' = []"
    by (simp_all add: updateSkillLevel_frame updateMetrics_switch_frame reset_def)
  show ?thesis
  proof (intro conjI impI)
    assume gate: "now' - lastAdjustmentTime s < 10000"
    then have skip: "considerAdjustment now' ?s' = ?s'"
      by (simp add: considerAdjustment_skipped pre)
    show "appliedTime (UpdateMetrics e d now now') (reset s) = None"
      using gate by (simp add: adjustmentApplied_def ADJUSTMENT_COOLDOWN_def pre)
    show "currentSettings (updateMetrics e d now now' (reset s)) = baseSettings s"
      by (simp add: updateMetrics_def skip pre)
    show "adjustmentHistory (updateMetrics e d now now' (reset s)) = []"
      by (simp add: updateMetrics_def skip pre)
    show "lastAdjustmentTime (updateMetrics e d now now' (reset s)) = lastAdjustmentTime s"
      by (simp add: updateMetrics_def skip pre)
  qed (rule last)
qed

text \<open>The witness: four deaths at clock reading 20000 apply the relief adjustment; after a
  \<^verbatim>\<open>reset\<close>, a fifth death at 23000 raises frustrationLevel to 0.8, so that the decision
  rule asks for relief again, and yet nothing is applied.\<close>

theorem reset_keeps_cooldown_witness:
  "lastAdjustmentTime (run (constructor (baseDifficulty 400))
        [UpdateMetrics ''player_death'' NoData 20000 20000,
         UpdateMetrics ''player_death'' NoData 20000 20000,
         UpdateMetrics ''player_death'' NoData 20000 20000,
         UpdateMetrics ''player_death'' NoData 20000 20000]) = 20000
   \<and> adjust (shouldAdjustDifficulty (updateSkillLevel
        (updateMetrics_switch ''player_death'' NoData 23000
          (reset (run (constructor (baseDifficulty 400))
            [UpdateMetrics ''player_death'' NoData 20000 20000,
             UpdateMetrics ''player_death'' NoData 20000 20000,
             UpdateMetrics ''player_death'' NoData 20000 20000,
             UpdateMetrics ''player_death'' NoData 20000 20000])))))
   \<and> currentSettings (updateMetrics ''player_death'' NoData 23000 23000
        (reset (run (constructor (baseDifficulty 400))
          [UpdateMetrics ''player_death'' NoData 20000 20000,
           UpdateMetrics ''player_death'' NoData 20000 20000,
           UpdateMetrics ''player_death'' NoData 20000 20000,
           UpdateMetrics ''player_death'' NoData 20000 20000]))) = baseDifficulty 400
   \<and> lastAdjustmentTime (updateMetrics ''player_death'' NoData 23000 23000
        (reset (run (constructor (baseDifficulty 400))
          [UpdateMetrics ''player_death'' NoData 20000 20000,
           UpdateMetrics ''player_death'' NoData 20000 20000,
           UpdateMetrics ''player_death'' NoData 20000 20000,
           UpdateMetrics ''player_death'' NoData 20000 20000]))) = 20000"
  using reset_keeps_cooldown [of "run (constructor (baseDifficulty 400))
        [UpdateMetrics ''player_death'' NoData 20000 20000,
         UpdateMetrics ''player_death'' NoData 20000 20000,
         UpdateMetrics ''player_death'' NoData 20000 20000,
         UpdateMetrics ''player_death'' NoData 20000 20000]" 23000 "''player_death''" NoData 23000]
  by (simp add: eval_defs)

end
